theory Spec2Isabelle
  imports Main "HOL-Library.Word" "HOL-Library.Sublist"
begin

section \<open>Signed firmware images: lib/signature\_tools.py\<close>

text \<open>
  The module appends a trailer (a 94 byte metadata record and two RSA signatures of
  128 bytes each) to a firmware payload, and detects, checks and strips that trailer when
  a file is read. The embedding follows the Python text function by function. Every
  exception the source can raise is a value \<open>Inl e\<close>; the file system, the module
  namespace and the PyCryptodome primitives are explicit arguments.
\<close>

subsection \<open>Data\<close>

type_synonym byte = "8 word"
type_synonym bytes = "byte list"

text \<open>A Python \<open>str\<close> is a sequence of Unicode code points; a path is a string.\<close>

type_synonym str = "nat list"
type_synonym path = string

text \<open>The files that exist, with their contents.\<close>

type_synonym fs = "path \<rightharpoonup> bytes"

datatype error =
    NameError
  | FileNotFoundError
  | UnicodeEncodeError
  | TypeError
  | ValueError

text \<open>
  A value a module-level name can be bound to: a bytes-like object, or an object of
  another kind, of which only the truth value matters here. \<open>None\<close>, zero and the
  empty string, list or tuple are false; a module, a function, a class, a logger and
  every non-empty string or container are true. Adding bytes to an object of another
  kind raises \<open>TypeError\<close>.
\<close>

datatype pyobj = PyBytes bytes | PyFalsy | PyTruthy

type_synonym namespace = "string \<rightharpoonup> pyobj"

text \<open>Log records written through the \<open>VWFlash\<close> logger.\<close>

datatype level = INFO | WARNING | CRITICAL

datatype message = Msg string | BytesStr bytes

type_synonym log = "(level \<times> message) list"

text \<open>
  The primitives imported from PyCryptodome, which are not part of the repository:
  \<open>SHA256.new\<close>, \<open>RSA.import_key\<close> (raises on malformed key material),
  \<open>PKCS115_SigScheme(key).sign\<close> (raises when the key cannot sign) and
  \<open>PKCS115_SigScheme(key).verify\<close> (raises when the signature is not valid, and
  returns otherwise).
\<close>

record ('h, 'k) crypto =
  sha256_new :: "bytes \<Rightarrow> 'h"
  import_key :: "bytes \<Rightarrow> error + 'k"
  pkcs_sign :: "'k \<Rightarrow> 'h \<Rightarrow> error + bytes"
  pkcs_verify :: "'k \<Rightarrow> 'h \<Rightarrow> bytes \<Rightarrow> error + unit"

subsection \<open>Python slices, padding and UTF-8\<close>

text \<open>
  \<open>xs[lo:hi]\<close>: a negative bound counts from the end, and every bound is clamped to
  the sequence, so a slice never raises.
\<close>

definition slice_index :: "nat \<Rightarrow> int \<Rightarrow> nat" where
  "slice_index n i = (if i < 0 then nat (max (i + int n) 0) else min (nat i) n)"

definition py_slice :: "int option \<Rightarrow> int option \<Rightarrow> 'a list \<Rightarrow> 'a list" where
  "py_slice lo hi xs =
     (let n = length xs;
          a = (case lo of None \<Rightarrow> 0 | Some i \<Rightarrow> slice_index n i);
          b = (case hi of None \<Rightarrow> n | Some j \<Rightarrow> slice_index n j)
      in drop a (take b xs))"

text \<open>\<open>s.ljust(width, fill)\<close>\<close>

definition ljust :: "nat \<Rightarrow> 'a \<Rightarrow> 'a list \<Rightarrow> 'a list" where
  "ljust width fill s = s @ replicate (width - length s) fill"

text \<open>
  \<open>s.encode("utf-8")\<close>: one to four bytes for each code point; a surrogate code point
  (U+D800 to U+DFFF) cannot be encoded and raises.
\<close>

definition encode_char :: "nat \<Rightarrow> error + bytes" where
  "encode_char c =
     (if c < 0x80 then Inr [of_nat c]
      else if c < 0x800 then Inr [of_nat (0xC0 + c div 64), of_nat (0x80 + c mod 64)]
      else if c < 0x10000 then
        (if 0xD800 \<le> c \<and> c \<le> 0xDFFF then Inl UnicodeEncodeError
         else Inr [of_nat (0xE0 + c div 4096), of_nat (0x80 + (c div 64) mod 64),
                   of_nat (0x80 + c mod 64)])
      else Inr [of_nat (0xF0 + c div 262144), of_nat (0x80 + (c div 4096) mod 64),
                of_nat (0x80 + (c div 64) mod 64), of_nat (0x80 + c mod 64)])"

fun encode_utf8 :: "str \<Rightarrow> error + bytes" where
  "encode_utf8 [] = Inr []"
| "encode_utf8 (c # cs) =
     (case encode_char c of
        Inl e \<Rightarrow> Inl e
      | Inr bs \<Rightarrow> (case encode_utf8 cs of Inl e \<Rightarrow> Inl e | Inr rest \<Rightarrow> Inr (bs @ rest)))"

text \<open>The byte literal \<open>b'METADATA:'\<close> and the space character.\<close>

definition METADATA_TAG :: bytes where
  "METADATA_TAG = [0x4D, 0x45, 0x54, 0x41, 0x44, 0x41, 0x54, 0x41, 0x3A]"

definition space :: nat where
  "space = 0x20"

text \<open>The key file both \<open>sign_bin\<close> and \<open>read_bytes\<close> name literally.\<close>

definition VW_Flash_pub :: path where
  "VW_Flash_pub = ''./data/VW_Flash.pub''"

text \<open>
  The truth value of an optional path argument: \<open>None\<close> and the empty string are
  false.
\<close>

definition truthy_path :: "path option \<Rightarrow> path option" where
  "truthy_path p = (case p of None \<Rightarrow> None | Some s \<Rightarrow> if s = [] then None else Some s)"

subsection \<open>The functions of the module\<close>

text \<open>
  \<open>sign_datablock(bin_file, private_key_path)\<close>: opens the key file, hashes the
  data, imports the key, signs. \<open>SHA256.new(data)\<close> feeds \<open>data\<close> to the hash only
  when \<open>data\<close> is true: for a false object of any kind the digest is that of the empty
  message, and for a true object that is not bytes-like the update raises
  \<open>TypeError\<close>.
\<close>

definition sign_datablock ::
  "fs \<Rightarrow> ('h, 'k) crypto \<Rightarrow> pyobj \<Rightarrow> path \<Rightarrow> error + bytes" where
  "sign_datablock files cr bin_file private_key_path =
     (case files private_key_path of
        None \<Rightarrow> Inl FileNotFoundError
      | Some private_key \<Rightarrow>
          (case (case bin_file of
                   PyBytes b \<Rightarrow> Inr (sha256_new cr b)
                 | PyFalsy \<Rightarrow> Inr (sha256_new cr [])
                 | PyTruthy \<Rightarrow> Inl TypeError) of
             Inl e \<Rightarrow> Inl e
           | Inr the_hash \<Rightarrow>
               (case import_key cr private_key of
                  Inl e \<Rightarrow> Inl e
                | Inr k \<Rightarrow> pkcs_sign cr k the_hash)))"

text \<open>
  \<open>verify_bin(bin_file, signature, public_key_path)\<close>: only the call of
  \<open>verify\<close> is inside the \<open>try\<close>; the function returns \<open>True\<close> when that call
  returns and \<open>False\<close> when it raises anything.
\<close>

definition verify_bin ::
  "fs \<Rightarrow> ('h, 'k) crypto \<Rightarrow> bytes \<Rightarrow> bytes \<Rightarrow> path \<Rightarrow> error + bool" where
  "verify_bin files cr bin_file signature public_key_path =
     (case files public_key_path of
        None \<Rightarrow> Inl FileNotFoundError
      | Some public_key \<Rightarrow>
          (let the_hash = sha256_new cr bin_file
           in case import_key cr public_key of
                Inl e \<Rightarrow> Inl e
              | Inr k \<Rightarrow>
                  (case pkcs_verify cr k the_hash signature of
                     Inr verified \<Rightarrow> Inr True
                   | Inl e \<Rightarrow> Inr False)))"

text \<open>\<open>build_metadata(boxcode, notes)\<close>\<close>

definition build_metadata :: "str \<Rightarrow> str \<Rightarrow> error + bytes" where
  "build_metadata boxcode notes =
     (case encode_utf8 (ljust 15 space (py_slice (Some 0) (Some 15) boxcode)) of
        Inl e \<Rightarrow> Inl e
      | Inr b \<Rightarrow>
          (case encode_utf8 (ljust 70 space (py_slice (Some 0) (Some 70) notes)) of
             Inl e \<Rightarrow> Inl e
           | Inr n \<Rightarrow> Inr (METADATA_TAG @ b @ n)))"

text \<open>
  The names the module binds at top level: its imports, the logger and its five
  functions. None of them is a bytes object, and all of them are true.
\<close>

definition module_globals :: namespace where
  "module_globals =
     map_of (map (\<lambda>name. (name, PyTruthy))
       [''logging'', ''RSA'', ''Path'', ''PKCS115_SigScheme'', ''SHA256'', ''pprint'',
        ''logger'', ''sign_datablock'', ''sign_bin'', ''verify_bin'', ''build_metadata'',
        ''read_bytes''])"

text \<open>
  \<open>sign_bin(bin_file, private_key_path, boxcode, notes)\<close>. The function assigns
  \<open>bin_file\<close>, \<open>metadata\<close>, \<open>signature1\<close>, \<open>signature2\<close> and
  \<open>signed_file\<close> only, so \<open>input_bin\<close> is not one of its locals: Python looks it
  up in the module namespace (it is no builtin) and raises when it is not bound there.
\<close>

definition sign_bin ::
  "namespace \<Rightarrow> fs \<Rightarrow> ('h, 'k) crypto \<Rightarrow> bytes \<Rightarrow> path option \<Rightarrow> str \<Rightarrow> str
     \<Rightarrow> error + bytes" where
  "sign_bin globals files cr bin_file private_key_path boxcode notes =
     (case build_metadata boxcode notes of
        Inl e \<Rightarrow> Inl e
      | Inr metadata \<Rightarrow>
          (let bin_file' = bin_file @ metadata
           in case globals ''input_bin'' of
                None \<Rightarrow> Inl NameError
              | Some input_bin \<Rightarrow>
                  (case sign_datablock files cr input_bin VW_Flash_pub of
                     Inl e \<Rightarrow> Inl e
                   | Inr signature1 \<Rightarrow>
                       (case (case truthy_path private_key_path of
                                Some p \<Rightarrow> sign_datablock files cr input_bin p
                              | None \<Rightarrow> Inr signature1) of
                          Inl e \<Rightarrow> Inl e
                        | Inr signature2 \<Rightarrow>
                            (case input_bin of
                               PyBytes c \<Rightarrow> Inr (c @ signature1 @ signature2)
                             | PyFalsy \<Rightarrow> Inl TypeError
                             | PyTruthy \<Rightarrow> Inl TypeError)))))"

text \<open>
  \<open>read_bytes(file_path, public_key_file)\<close>. The result is the returned bytes (or
  the exception) together with the log records written up to that point.
\<close>

definition read_bytes ::
  "fs \<Rightarrow> ('h, 'k) crypto \<Rightarrow> path \<Rightarrow> path option \<Rightarrow> (error + bytes) \<times> log" where
  "read_bytes files cr file_path public_key_file =
     (case files file_path of
        None \<Rightarrow> (Inl FileNotFoundError, [])
      | Some bin_data \<Rightarrow>
          (let sig_block = py_slice (Some (- 350)) None bin_data
           in if py_slice (Some 0) (Some 9) sig_block = METADATA_TAG then
                (let log1 = [(WARNING, Msg ''Found signature block in bin file, validating''),
                             (INFO, BytesStr (py_slice (Some 0) (Some (- 256)) sig_block))];
                     signature1 = py_slice (Some (- 256)) (Some (- 128)) sig_block;
                     signature2 = py_slice (Some (- 128)) None sig_block
                 in case verify_bin files cr (py_slice (Some 0) (Some (- 256)) bin_data)
                           signature1 VW_Flash_pub of
                      Inl e \<Rightarrow> (Inl e, log1)
                    | Inr ok1 \<Rightarrow>
                        (let log2 = log1 @
                               [if ok1 then (WARNING, Msg ''First signature validated'')
                                else (CRITICAL, Msg ''First signature failed!'')]
                         in if signature1 = signature2 then
                              (Inr (py_slice (Some 0) (Some (- 350)) bin_data),
                               log2 @ [(WARNING, Msg ''No secondary signature found'')])
                            else
                              (case truthy_path public_key_file of
                                 Some p \<Rightarrow>
                                   (case verify_bin files cr
                                           (py_slice (Some 0) (Some (- 256)) bin_data)
                                           signature2 p of
                                      Inl e \<Rightarrow> (Inl e, log2)
                                    | Inr ok2 \<Rightarrow>
                                        (Inr (py_slice (Some 0) (Some (- 350)) bin_data),
                                         log2 @
                                           [if ok2
                                            then (WARNING, Msg ''Second signature validated'')
                                            else (CRITICAL, Msg ''Second signature failed!'')]))
                               | None \<Rightarrow>
                                   (Inr (py_slice (Some 0) (Some (- 350)) bin_data),
                                    log2 @
                                      [(INFO, Msg ''File contains additional signature, but no public key arg provided'')]))))
              else (Inr bin_data, [])))"

subsection \<open>A small instance of the primitives, for evaluation\<close>

text \<open>
  Keys are their own file contents (an empty file is malformed), the digest is the data
  itself, a signature is the key followed by the digest, and verification accepts exactly
  that.
\<close>

definition toy_crypto :: "(bytes, bytes) crypto" where
  "toy_crypto =
     \<lparr> sha256_new = (\<lambda>b. b),
       import_key = (\<lambda>kb. if kb = [] then Inl ValueError else Inr kb),
       pkcs_sign = (\<lambda>k h. Inr (k @ h)),
       pkcs_verify = (\<lambda>k h s. if s = k @ h then Inr () else Inl ValueError) \<rparr>"

definition toy_fs :: fs where
  "toy_fs = [VW_Flash_pub \<mapsto> [1], ''second.pub'' \<mapsto> [2]]"

text \<open>
  A file of 352 bytes: a payload of two bytes, the tag, 85 spaces of metadata fields and
  two different signature slots.
\<close>

definition demo_image :: bytes where
  "demo_image =
     [0xAA, 0xBB] @ METADATA_TAG @ replicate 85 0x20 @ replicate 128 1 @ replicate 128 2"

text \<open>The module namespace after a caller has bound \<open>input_bin\<close> to one byte.\<close>

definition patched_globals :: namespace where
  "patched_globals = module_globals(''input_bin'' \<mapsto> PyBytes [7])"

subsection \<open>Vocabulary of the statements\<close>

text \<open>The key file at a path exists and \<open>RSA.import_key\<close> accepts its contents.\<close>

definition key_loads :: "fs \<Rightarrow> ('h, 'k) crypto \<Rightarrow> path \<Rightarrow> bool" where
  "key_loads files cr p =
     (case files p of
        None \<Rightarrow> False
      | Some kb \<Rightarrow> (case import_key cr kb of Inl e \<Rightarrow> False | Inr k \<Rightarrow> True))"

section \<open>Properties\<close>

subsection \<open>The slices the module takes, in terms of take and drop\<close>

lemma slice_last_350: "py_slice (Some (- 350)) None xs = drop (length xs - 350) xs"
  by (auto simp: py_slice_def slice_index_def Let_def max_def intro: arg_cong2 [where f = drop])

lemma slice_first: "py_slice (Some 0) (Some (int k)) xs = take k xs"
  by (simp add: py_slice_def slice_index_def min_def Let_def)

lemma slice_first_9: "py_slice (Some 0) (Some 9) xs = take 9 xs"
  using slice_first [of 9 xs] by simp

lemma slice_first_15: "py_slice (Some 0) (Some 15) xs = take 15 xs"
  using slice_first [of 15 xs] by simp

lemma slice_first_70: "py_slice (Some 0) (Some 70) xs = take 70 xs"
  using slice_first [of 70 xs] by simp

lemma slice_strip_350: "py_slice (Some 0) (Some (- 350)) xs = take (length xs - 350) xs"
  by (auto simp: py_slice_def slice_index_def Let_def max_def intro!: arg_cong2 [where f = take])

lemma slice_strip_256: "py_slice (Some 0) (Some (- 256)) xs = take (length xs - 256) xs"
  by (auto simp: py_slice_def slice_index_def Let_def max_def intro!: arg_cong2 [where f = take])

lemma slice_sig1:
  "py_slice (Some (- 256)) (Some (- 128)) xs
     = drop (length xs - 256) (take (length xs - 128) xs)"
  by (auto simp: py_slice_def slice_index_def Let_def max_def
      intro!: arg_cong2 [where f = take] arg_cong2 [where f = drop])

lemma slice_sig2: "py_slice (Some (- 128)) None xs = drop (length xs - 128) xs"
  by (auto simp: py_slice_def slice_index_def Let_def max_def intro!: arg_cong2 [where f = drop])

lemmas slices =
  slice_last_350 slice_first_9 slice_strip_350 slice_strip_256 slice_sig1 slice_sig2

subsection \<open>Facts shared by the claims\<close>

lemma module_globals_input_bin: "module_globals ''input_bin'' = None"
  by (simp add: module_globals_def)

lemma verify_bin_loaded: "key_loads files cr p \<Longrightarrow> \<exists>b. verify_bin files cr d s p = Inr b"
  by (auto simp: key_loads_def verify_bin_def Let_def split: option.splits sum.splits)

lemma key_loads_verify_update [simp]:
  "key_loads files (cr\<lparr>pkcs_verify := v\<rparr>) p = key_loads files cr p"
  by (simp add: key_loads_def split: option.splits)

text \<open>
  When the last 350 bytes start with the tag and the keys that are opened can be loaded,
  \<open>read_bytes\<close> returns the file without its last 350 bytes.
\<close>

lemma read_bytes_with_trailer:
  assumes data: "files file_path = Some bin_data"
    and tag: "take 9 (drop (length bin_data - 350) bin_data) = METADATA_TAG"
    and primary: "key_loads files cr VW_Flash_pub"
    and secondary:
      "case truthy_path public_key_file of None \<Rightarrow> True | Some p \<Rightarrow> key_loads files cr p"
  shows "fst (read_bytes files cr file_path public_key_file)
           = Inr (take (length bin_data - 350) bin_data)"
proof -
  let ?block = "drop (length bin_data - 350) bin_data"
  let ?signed = "take (length bin_data - 256) bin_data"
  obtain ok1 where ok1:
    "verify_bin files cr ?signed
       (drop (length ?block - 256) (take (length ?block - 128) ?block)) VW_Flash_pub = Inr ok1"
    using verify_bin_loaded [OF primary] by blast
  show ?thesis
  proof (cases "truthy_path public_key_file")
    case None
    then show ?thesis
      using data tag ok1 by (simp add: read_bytes_def slices Let_def)
  next
    case (Some p)
    then have "key_loads files cr p"
      using secondary by simp
    then obtain ok2 where
      "verify_bin files cr ?signed (drop (length ?block - 128) ?block) p = Inr ok2"
      using verify_bin_loaded by blast
    then show ?thesis
      using data tag ok1 Some by (simp add: read_bytes_def slices Let_def)
  qed
qed

text \<open>
  The layout the reader expects: a payload followed by 94 bytes that start with the tag
  and by two slots of 128 bytes comes back as the payload.
\<close>

lemma read_bytes_of_layout:
  assumes data: "files file_path = Some (payload @ metadata @ sig1 @ sig2)"
    and len: "length metadata = 94" "length sig1 = 128" "length sig2 = 128"
    and tag: "take 9 metadata = METADATA_TAG"
    and primary: "key_loads files cr VW_Flash_pub"
    and secondary:
      "case truthy_path public_key_file of None \<Rightarrow> True | Some p \<Rightarrow> key_loads files cr p"
  shows "fst (read_bytes files cr file_path public_key_file) = Inr payload"
proof -
  let ?img = "payload @ metadata @ sig1 @ sig2"
  have n: "length ?img - 350 = length payload"
    using len by simp
  have "take 9 (drop (length ?img - 350) ?img) = METADATA_TAG"
    unfolding n using tag len by simp
  from read_bytes_with_trailer [OF data this primary secondary]
  show ?thesis
    unfolding n by simp
qed

text \<open>
  When the two slots hold the same bytes the reader logs that there is no secondary
  signature and never opens the caller's key file: the result does not depend on
  \<open>public_key_file\<close>.
\<close>

lemma read_bytes_equal_slots:
  assumes data: "files file_path = Some bin_data"
    and tag: "take 9 (drop (length bin_data - 350) bin_data) = METADATA_TAG"
    and primary: "key_loads files cr VW_Flash_pub"
    and same: "py_slice (Some (- 256)) (Some (- 128)) (py_slice (Some (- 350)) None bin_data)
                 = py_slice (Some (- 128)) None (py_slice (Some (- 350)) None bin_data)"
  shows "read_bytes files cr file_path public_key_file = read_bytes files cr file_path None
         \<and> fst (read_bytes files cr file_path public_key_file)
             = Inr (take (length bin_data - 350) bin_data)
         \<and> last (snd (read_bytes files cr file_path public_key_file))
             = (WARNING, Msg ''No secondary signature found'')"
proof -
  let ?block = "drop (length bin_data - 350) bin_data"
  obtain ok1 where ok1:
    "verify_bin files cr (take (length bin_data - 256) bin_data)
       (drop (length ?block - 256) (take (length ?block - 128) ?block)) VW_Flash_pub = Inr ok1"
    using verify_bin_loaded [OF primary] by blast
  have same': "drop (length ?block - 256) (take (length ?block - 128) ?block)
                 = drop (length ?block - 128) ?block"
    using same by (simp only: slices)
  show ?thesis
    using data tag ok1 same' by (simp add: read_bytes_def slices Let_def)
qed

text \<open>
  In a namespace where \<open>sign_bin\<close> returns and no key path is given, the two slots of
  the result are the same signature.
\<close>

lemma sign_bin_mirrors_slot:
  assumes "sign_bin globals files cr bin_file None boxcode notes = Inr signed_file"
  shows "\<exists>c s. globals ''input_bin'' = Some (PyBytes c) \<and> signed_file = c @ s @ s"
  using assms
  by (auto simp: sign_bin_def truthy_path_def Let_def split: sum.splits option.splits pyobj.splits)

text \<open>
  The shape of every image \<open>sign_bin\<close> returns, in whatever namespace: the bytes
  bound to \<open>input_bin\<close>, their signature under the fixed key file, and a second slot
  that the caller's key path decides.
\<close>

lemma sign_bin_result_shape:
  assumes "sign_bin globals files cr bin_file private_key_path boxcode notes = Inr signed_file"
  shows "\<exists>c signature1 signature2.
           globals ''input_bin'' = Some (PyBytes c) \<and>
           sign_datablock files cr (PyBytes c) ''./data/VW_Flash.pub'' = Inr signature1 \<and>
           signed_file = c @ signature1 @ signature2 \<and>
           (case truthy_path private_key_path of
              None \<Rightarrow> signature2 = signature1
            | Some p \<Rightarrow> sign_datablock files cr (PyBytes c) p = Inr signature2)"
  using assms
  by (auto simp: sign_bin_def VW_Flash_pub_def Let_def
      split: sum.splits option.splits pyobj.splits)

text \<open>
  A false object bound to \<open>input_bin\<close> is signed as the empty message, and the call
  then raises when the signature is added to it.
\<close>

lemma sign_datablock_falsy:
  "sign_datablock files cr PyFalsy p = sign_datablock files cr (PyBytes []) p"
  by (simp add: sign_datablock_def split: option.splits)

text \<open>Text of ASCII characters is encoded one byte for each character.\<close>

lemma encode_utf8_ascii: "\<forall>c\<in>set cs. c < 128 \<Longrightarrow> encode_utf8 cs = Inr (map of_nat cs)"
  by (induction cs) (simp_all add: encode_char_def)

lemma ljust_ascii: "\<forall>c\<in>set cs. c < 128 \<Longrightarrow> \<forall>c\<in>set (ljust w space (take k cs)). c < 128"
  by (auto simp: ljust_def space_def dest: in_set_takeD)

lemma length_ljust_take: "length (ljust w fill (take w cs)) = w"
  by (simp add: ljust_def)

lemma build_metadata_ascii:
  assumes "\<forall>c\<in>set boxcode. c < 128" and "\<forall>c\<in>set notes. c < 128"
  shows "build_metadata boxcode notes
           = Inr (METADATA_TAG @ map of_nat (ljust 15 space (take 15 boxcode))
                    @ map of_nat (ljust 70 space (take 70 notes)))"
  using ljust_ascii [OF assms(1), of 15 15] ljust_ascii [OF assms(2), of 70 70]
  by (simp add: build_metadata_def slice_first_15 slice_first_70 encode_utf8_ascii)

lemma build_metadata_ascii_length:
  assumes "\<forall>c\<in>set boxcode. c < 128" and "\<forall>c\<in>set notes. c < 128"
  shows "map_sum id length (build_metadata boxcode notes) = Inr 94"
  by (simp add: build_metadata_ascii [OF assms] length_ljust_take METADATA_TAG_def)

lemma build_metadata_ABC:
  "build_metadata [0x41, 0x42, 0x43] []
     = Inr (METADATA_TAG @ [0x41, 0x42, 0x43] @ replicate 12 0x20 @ replicate 70 0x20)"
  by (simp add: build_metadata_ascii ljust_def space_def replicate_add [symmetric])

lemma sign_bin_falsy_input_bin:
  "sign_bin (module_globals(''input_bin'' \<mapsto> PyFalsy)) toy_fs toy_crypto [1, 2] None [] []
     = Inl TypeError
   \<and> sign_datablock toy_fs toy_crypto PyFalsy VW_Flash_pub = Inr [1]"
proof -
  have "\<exists>m. build_metadata [] [] = Inr m"
    by (simp add: build_metadata_ascii)
  then show ?thesis
    by (auto simp: sign_bin_def sign_datablock_def truthy_path_def toy_fs_def toy_crypto_def
        VW_Flash_pub_def)
qed

lemma demo_image_tag: "take 9 (drop (length demo_image - 350) demo_image) = METADATA_TAG"
  by (simp add: demo_image_def METADATA_TAG_def)

lemma demo_image_payload: "take (length demo_image - 350) demo_image = [0xAA, 0xBB]"
  by (simp add: demo_image_def METADATA_TAG_def)

lemma demo_keys:
  "key_loads (toy_fs(''f.bin'' \<mapsto> demo_image)) toy_crypto VW_Flash_pub"
  "key_loads (toy_fs(''f.bin'' \<mapsto> demo_image)) toy_crypto ''second.pub''"
  by (simp_all add: key_loads_def toy_fs_def toy_crypto_def VW_Flash_pub_def)

lemma patched_globals_input_bin: "patched_globals ''input_bin'' = Some (PyBytes [7])"
  by (simp add: patched_globals_def)

subsection \<open>Composition\<close>

text \<open>
  Claim C1 (round trip: parsing the image composed from a payload gives the payload
  back). The code does not get that far. Composing the payload 01 02 03 with box code
  "ABC", empty notes and a key file that exists raises \<open>NameError\<close>, so there is no
  image to parse. On the reader's side the layout is handled as the claim expects, see
  \<open>read_bytes_of_layout\<close>.
\<close>

theorem compose_then_parse_raises:
  "(case sign_bin module_globals toy_fs toy_crypto [1, 2, 3] (Some ''second.pub'')
           [0x41, 0x42, 0x43] [] of
      Inl e \<Rightarrow> Inl e
    | Inr signed_file \<Rightarrow>
        fst (read_bytes (toy_fs(''signed.bin'' \<mapsto> signed_file)) toy_crypto ''signed.bin''
               (Some ''second.pub'')))
   = Inl NameError"
  by (simp add: sign_bin_def build_metadata_ABC module_globals_input_bin)

text \<open>
  Claim C2 (both signatures cover payload followed by metadata, and the result is
  payload, metadata, first signature, second signature). The function builds that buffer
  in \<open>bin_file\<close> and then signs and returns \<open>input_bin\<close> instead. In the module as it
  is written the call raises \<open>NameError\<close>; in a namespace where \<open>input_bin\<close> is the
  single byte 07, the payload 01 02 and the metadata appear nowhere in the result, which
  is that byte followed by two signatures over it.
\<close>

theorem sign_bin_signs_input_bin_not_payload:
  "sign_bin module_globals toy_fs toy_crypto [1, 2] (Some ''second.pub'') [0x41] []
     = Inl NameError
   \<and> sign_bin patched_globals toy_fs toy_crypto [1, 2] (Some ''second.pub'') [0x41] []
     = Inr [7, 1, 7, 2, 7]"
proof -
  have meta: "build_metadata [0x41] [] = Inr (METADATA_TAG @ 0x41 # replicate 84 0x20)"
    by (simp add: build_metadata_ascii ljust_def space_def replicate_add [symmetric])
  have "sign_bin module_globals toy_fs toy_crypto [1, 2] (Some ''second.pub'') [0x41] []
          = Inl NameError"
    by (simp add: sign_bin_def meta module_globals_input_bin)
  moreover
  have "sign_bin patched_globals toy_fs toy_crypto [1, 2] (Some ''second.pub'') [0x41] []
          = Inr [7, 1, 7, 2, 7]"
    by (simp add: sign_bin_def meta patched_globals_input_bin sign_datablock_def
        truthy_path_def toy_fs_def toy_crypto_def VW_Flash_pub_def)
  ultimately show ?thesis
    by simp
qed

text \<open>
  Claim C7 (composing without a secondary key gives two equal signature slots, and the
  reader then reports that there is no secondary signature whatever key the caller
  supplies). Composing the empty payload without a key path raises \<open>NameError\<close>, so no
  slots are produced. The branch that would copy the first slot and the reader's half
  of the claim are \<open>sign_bin_mirrors_slot\<close> and \<open>read_bytes_equal_slots\<close>.
\<close>

theorem sign_bin_single_signer_raises:
  "sign_bin module_globals toy_fs toy_crypto [] None [] [] = Inl NameError"
proof -
  have "\<exists>m. build_metadata [] [] = Inr m"
    by (simp add: build_metadata_ascii)
  then show ?thesis
    by (auto simp: sign_bin_def module_globals_input_bin)
qed

text \<open>
  Claim C8: in the module as it is written, \<open>sign_bin\<close> raises for every payload, key
  path, box code and notes. When the metadata cannot be built the exception is the
  encoder's; on every other path it is the \<open>NameError\<close> from reading \<open>input_bin\<close>.
  No argument makes it return a signed image.
\<close>

theorem sign_bin_always_raises:
  "sign_bin module_globals files cr bin_file private_key_path boxcode notes
     = Inl (case build_metadata boxcode notes of Inl e \<Rightarrow> e | Inr metadata \<Rightarrow> NameError)"
  by (simp add: sign_bin_def module_globals_input_bin split: sum.splits)

text \<open>
  Claim C10 (the first signature is always computed with the key file
  \<open>./data/VW_Flash.pub\<close>, and the caller's key path decides the second slot only).
  Line 25 names that key file, but the call is never made: its first argument
  \<open>input_bin\<close> raises \<open>NameError\<close> before \<open>sign_datablock\<close> is entered. The
  outcome of composing the payload 01 02 is the same with both key files present, with
  no file at all (where opening the key file would raise \<open>FileNotFoundError\<close>), and
  with or without a key path: no key file is opened and no signature is computed.
\<close>

theorem sign_bin_never_opens_key_file:
  "sign_bin module_globals toy_fs toy_crypto [1, 2] (Some ''second.pub'') [] []
     = Inl NameError
   \<and> sign_bin module_globals Map.empty toy_crypto [1, 2] (Some ''second.pub'') [] []
     = Inl NameError
   \<and> sign_bin module_globals Map.empty toy_crypto [1, 2] None [] [] = Inl NameError
   \<and> sign_datablock Map.empty toy_crypto (PyBytes [1, 2]) ''./data/VW_Flash.pub''
     = Inl FileNotFoundError"
proof -
  have "\<exists>m. build_metadata [] [] = Inr m"
    by (simp add: build_metadata_ascii)
  then have "sign_bin module_globals files toy_crypto [1, 2] p [] [] = Inl NameError"
    for files p
    by (auto simp: sign_bin_def module_globals_input_bin)
  then show ?thesis
    by (simp add: sign_datablock_def)
qed

subsection \<open>Metadata\<close>

text \<open>
  Claim C6 (the encoded metadata is always exactly 94 bytes and encoding never fails).
  The fields are cut and padded to 15 and 70 characters before they are encoded, so a
  character outside ASCII widens its field: for the box code U+00E9 the result has 95
  bytes, and for the surrogate U+D800 the encoder raises. For ASCII text the claim
  holds, see \<open>build_metadata_ascii\<close>, \<open>build_metadata_ascii_length\<close> and
  \<open>build_metadata_ABC\<close>.
\<close>

theorem build_metadata_non_ascii_width:
  "map_sum id length (build_metadata [0xE9] []) = Inr 95
   \<and> build_metadata [0xD800] [] = Inl UnicodeEncodeError"
proof -
  have box: "encode_utf8 (ljust 15 space [0xE9])
               = Inr ([0xC3, 0xA9] @ replicate 14 0x20)"
    by (simp add: ljust_def space_def encode_char_def encode_utf8_ascii)
  have free: "encode_utf8 (ljust 70 space []) = Inr (replicate 70 0x20)"
    by (simp add: ljust_def space_def encode_utf8_ascii)
  have "map_sum id length (build_metadata [0xE9] []) = Inr 95"
    by (simp add: build_metadata_def slice_first_15 slice_first_70 box free METADATA_TAG_def)
  moreover
  have "build_metadata [0xD800] [] = Inl UnicodeEncodeError"
    by (simp add: build_metadata_def slice_first_15 ljust_def encode_char_def)
  ultimately show ?thesis
    by simp
qed

subsection \<open>Verification\<close>

text \<open>
  Claim C5: for every content, every signature and every key file that exists and that
  \<open>RSA.import_key\<close> accepts, \<open>verify_bin\<close> returns a boolean and does not raise:
  \<open>True\<close> exactly when the library's \<open>verify\<close> returns for the digest of the
  content, and \<open>False\<close> whenever it raises, as it does for a malformed signature or
  one made with another key.
\<close>

theorem verify_bin_total_on_loaded_key:
  assumes "files public_key_path = Some kb" and "import_key cr kb = Inr k"
  shows "verify_bin files cr content signature public_key_path
           = Inr (pkcs_verify cr k (sha256_new cr content) signature = Inr ())"
  using assms by (simp add: verify_bin_def Let_def split: sum.splits)

text \<open>
  C5 at concrete calls: a matching signature gives \<open>True\<close>, a signature made with the
  other key and a signature of the wrong shape give \<open>False\<close>.
\<close>

theorem verify_bin_total_on_loaded_key_witness:
  "toy_fs ''./data/VW_Flash.pub'' = Some [1] \<and> import_key toy_crypto [1] = Inr [1]
   \<and> verify_bin toy_fs toy_crypto [5, 6] [1, 5, 6] ''./data/VW_Flash.pub'' = Inr True
   \<and> verify_bin toy_fs toy_crypto [5, 6] [2, 5, 6] ''./data/VW_Flash.pub'' = Inr False
   \<and> verify_bin toy_fs toy_crypto [5, 6] [] ''./data/VW_Flash.pub'' = Inr False"
proof -
  have f: "toy_fs ''./data/VW_Flash.pub'' = Some [1]"
    by (simp add: toy_fs_def VW_Flash_pub_def)
  have i: "import_key toy_crypto [1] = Inr [1]"
    by (simp add: toy_crypto_def)
  show ?thesis
    using f i
      verify_bin_total_on_loaded_key [where files = toy_fs and cr = toy_crypto
        and public_key_path = "''./data/VW_Flash.pub''" and kb = "[1]" and k = "[1]"
        and content = "[5, 6]" and signature = "[1, 5, 6]"]
      verify_bin_total_on_loaded_key [where files = toy_fs and cr = toy_crypto
        and public_key_path = "''./data/VW_Flash.pub''" and kb = "[1]" and k = "[1]"
        and content = "[5, 6]" and signature = "[2, 5, 6]"]
      verify_bin_total_on_loaded_key [where files = toy_fs and cr = toy_crypto
        and public_key_path = "''./data/VW_Flash.pub''" and kb = "[1]" and k = "[1]"
        and content = "[5, 6]" and signature = "[]"]
    by (simp add: toy_crypto_def)
qed

subsection \<open>Reading a file\<close>

text \<open>
  Claim C3 as stated (every input shorter than 350 bytes is returned unchanged) fails:
  the reader has no length check. The nine bytes of the tag alone are shorter than 350
  bytes, are taken for a trailer, and the reader returns the empty byte string.
\<close>

theorem short_tagged_input_is_stripped:
  "length METADATA_TAG < 350
   \<and> fst (read_bytes (toy_fs(''f.bin'' \<mapsto> METADATA_TAG)) toy_crypto ''f.bin'' None) = Inr []
   \<and> METADATA_TAG \<noteq> []"
  by (simp add: read_bytes_def slices verify_bin_def toy_fs_def toy_crypto_def
      VW_Flash_pub_def truthy_path_def METADATA_TAG_def)

text \<open>
  Claim C3, amended: for every input whose last 350 bytes (the whole input when it is
  shorter) do not begin with the nine byte tag, the reader returns the entire input
  unchanged, opens no key, verifies nothing and logs nothing.
\<close>

theorem read_bytes_untagged_passthrough:
  assumes "files file_path = Some bin_data"
    and "take 9 (drop (length bin_data - 350) bin_data) \<noteq> METADATA_TAG"
  shows "read_bytes files cr file_path public_key_file = (Inr bin_data, [])"
  using assms by (simp add: read_bytes_def slices)

text \<open>C3 amended, at a file of three bytes and with no key file present at all.\<close>

theorem read_bytes_untagged_passthrough_witness:
  "[''f.bin'' \<mapsto> [1, 2, 3 :: byte]] ''f.bin'' = Some [1, 2, 3]
   \<and> take 9 (drop (length [1, 2, 3 :: byte] - 350) [1, 2, 3]) \<noteq> METADATA_TAG
   \<and> read_bytes [''f.bin'' \<mapsto> [1, 2, 3]] toy_crypto ''f.bin'' (Some ''second.pub'')
       = (Inr [1, 2, 3], [])"
proof -
  have f: "[''f.bin'' \<mapsto> [1, 2, 3 :: byte]] ''f.bin'' = Some [1, 2, 3]"
    by simp
  have t: "take 9 (drop (length [1, 2, 3 :: byte] - 350) [1, 2, 3]) \<noteq> METADATA_TAG"
    by (simp add: METADATA_TAG_def)
  show ?thesis
    using f t
      read_bytes_untagged_passthrough [where files = "[''f.bin'' \<mapsto> [1, 2, 3]]"
        and file_path = "''f.bin''" and bin_data = "[1, 2, 3]" and cr = toy_crypto
        and public_key_file = "Some ''second.pub''"]
    by simp
qed

text \<open>
  Claim C4: when the last 350 bytes of the input begin with the tag and the key files
  the reader opens can be loaded, the reader returns the input without its last 350
  bytes whatever the library's \<open>verify\<close> does: \<open>v\<close> stands for any behaviour of it,
  accepting or raising, and the returned bytes are the same.
\<close>

theorem read_bytes_fail_open:
  assumes "files file_path = Some bin_data"
    and "take 9 (drop (length bin_data - 350) bin_data) = METADATA_TAG"
    and "key_loads files cr ''./data/VW_Flash.pub''"
    and "case truthy_path public_key_file of None \<Rightarrow> True | Some p \<Rightarrow> key_loads files cr p"
  shows "fst (read_bytes files (cr\<lparr>pkcs_verify := v\<rparr>) file_path public_key_file)
           = Inr (take (length bin_data - 350) bin_data)"
proof -
  let ?cr = "cr\<lparr>pkcs_verify := v\<rparr>"
  have primary: "key_loads files ?cr VW_Flash_pub"
    using assms(3) by (simp add: VW_Flash_pub_def)
  have secondary:
    "case truthy_path public_key_file of None \<Rightarrow> True | Some p \<Rightarrow> key_loads files ?cr p"
    using assms(4) by (simp split: option.splits)
  show ?thesis
    by (rule read_bytes_with_trailer [OF assms(1) assms(2) primary secondary])
qed

text \<open>
  C4 at the 352 byte file, once with a \<open>verify\<close> that rejects everything and once
  with one that accepts everything: both return the two payload bytes.
\<close>

theorem read_bytes_fail_open_witness:
  "fst (read_bytes (toy_fs(''f.bin'' \<mapsto> demo_image))
          (toy_crypto\<lparr>pkcs_verify := \<lambda>k h s. Inl ValueError\<rparr>) ''f.bin'' (Some ''second.pub''))
     = Inr [0xAA, 0xBB]
   \<and> fst (read_bytes (toy_fs(''f.bin'' \<mapsto> demo_image))
          (toy_crypto\<lparr>pkcs_verify := \<lambda>k h s. Inr ()\<rparr>) ''f.bin'' (Some ''second.pub''))
     = Inr [0xAA, 0xBB]"
proof -
  have d: "(toy_fs(''f.bin'' \<mapsto> demo_image)) ''f.bin'' = Some demo_image"
    by simp
  have p: "key_loads (toy_fs(''f.bin'' \<mapsto> demo_image)) toy_crypto ''./data/VW_Flash.pub''"
    using demo_keys(1) by (simp add: VW_Flash_pub_def)
  have s: "case truthy_path (Some ''second.pub'') of
             None \<Rightarrow> True
           | Some p \<Rightarrow> key_loads (toy_fs(''f.bin'' \<mapsto> demo_image)) toy_crypto p"
    using demo_keys(2) by (simp add: truthy_path_def)
  show ?thesis
    using read_bytes_fail_open [OF d demo_image_tag p s]
    by (simp add: demo_image_payload)
qed

text \<open>
  Claim C9: whatever the reader returns is a prefix of the input: the input without its
  last 350 bytes when those begin with the tag (nothing at all when such an input has at
  most 350 bytes), and the whole input otherwise.
\<close>

theorem read_bytes_returns_prefix:
  assumes "files file_path = Some bin_data"
    and "fst (read_bytes files cr file_path public_key_file) = Inr out"
  shows "prefix out bin_data \<and>
         (if take 9 (drop (length bin_data - 350) bin_data) = METADATA_TAG
          then out = take (length bin_data - 350) bin_data
               \<and> (length bin_data \<le> 350 \<longrightarrow> out = [])
          else out = bin_data)"
  using assms
  by (auto simp: read_bytes_def slices Let_def take_is_prefix
      split: sum.splits option.splits if_splits)

text \<open>C9 at the 352 byte file: the two payload bytes come back.\<close>

theorem read_bytes_returns_prefix_witness:
  "fst (read_bytes (toy_fs(''f.bin'' \<mapsto> demo_image)) toy_crypto ''f.bin'' None)
     = Inr [0xAA, 0xBB]
   \<and> prefix [0xAA, 0xBB] demo_image
   \<and> take 9 (drop (length demo_image - 350) demo_image) = METADATA_TAG"
proof -
  have d: "(toy_fs(''f.bin'' \<mapsto> demo_image)) ''f.bin'' = Some demo_image"
    by simp
  have s: "case truthy_path None of
             None \<Rightarrow> True
           | Some p \<Rightarrow> key_loads (toy_fs(''f.bin'' \<mapsto> demo_image)) toy_crypto p"
    by (simp add: truthy_path_def)
  have run: "fst (read_bytes (toy_fs(''f.bin'' \<mapsto> demo_image)) toy_crypto ''f.bin'' None)
               = Inr [0xAA, 0xBB]"
    using read_bytes_with_trailer [OF d demo_image_tag demo_keys(1) s]
    by (simp add: demo_image_payload)
  from read_bytes_returns_prefix [OF d run] have "prefix [0xAA, 0xBB] demo_image"
    by blast
  with run demo_image_tag show ?thesis
    by blast
qed

end
